theory Spec2Isabelle
  imports Complex_Main "HOL-Library.AList"
begin

section \<open>Data model\<close>

text \<open>
  The job engine of the backend lives in two near-duplicate services,
  \<^verbatim>\<open>app/services/training_service.py\<close> and \<^verbatim>\<open>app/services/optimization_service.py\<close>,
  called from \<^verbatim>\<open>app/api/v1/endpoints/training.py\<close> and \<^verbatim>\<open>optimization.py\<close>.

  Conventions of the embedding:
  \<^item> \<^verbatim>\<open>TrainingStatus\<close> and \<^verbatim>\<open>OptimizationStatus\<close> have the same five members and are one
    datatype; the job dictionaries only ever hold these literals.
  \<^item> A \<^verbatim>\<open>datetime\<close> is a number of microseconds; \<^verbatim>\<open>datetime.utcnow()\<close> is a reading
    \<open>now\<close> handed to the block of code that makes the call.
  \<^item> Python floats are computed exactly, in the rationals.
  \<^item> A job dictionary is a record; a key that the code adds later (\<^verbatim>\<open>current_epoch\<close>,
    \<^verbatim>\<open>completion_time\<close>, \<^verbatim>\<open>error\<close>) is an option field, \<open>None\<close> while the key is absent.
  \<^item> \<^verbatim>\<open>active_jobs\<close> is an association list in insertion order, as a Python dict is:
    \<open>map_of\<close> reads it and \<open>AList.update\<close> assigns to a key.
  \<^item> Model fields that the job engine never reads (training data, hyperparameters,
    default timestamps of the response models) are left out.
\<close>

datatype status = Pending | Running | Completed | Failed | Cancelled

datatype model_type = CODE_REVIEW | RAG | MULTI_HOP | CLASSIFICATION | GENERATION

datatype optimization_algorithm =
  BOOTSTRAP_FEW_SHOT | RANDOM_SEARCH | BAYESIAN_OPTIMIZATION | GENETIC_ALGORITHM
  | REINFORCEMENT_LEARNING

type_synonym datetime = int

definition total_seconds :: "int \<Rightarrow> rat" where
  "total_seconds delta = of_int delta / 1000000"

datatype exn = KeyError string | ZeroDivisionError | Exception string

fun str :: "exn \<Rightarrow> string" where
  "str (KeyError k) = [CHR 0x27] @ k @ [CHR 0x27]"
| "str ZeroDivisionError = ''division by zero''"
| "str (Exception msg) = msg"

subsection \<open>Requests and their validation\<close>

record training_request =
  model_type :: model_type
  epochs :: int
  batch_size :: int
  learning_rate :: rat

record optimization_request =
  target_module :: string
  optimization_algorithm :: optimization_algorithm
  max_iterations :: int

text \<open>
  The body of a POST request before validation: a required field is \<open>None\<close> when the
  body lacks it, an optional one then takes the default of its \<^verbatim>\<open>Field\<close>.
\<close>

record training_body =
  body_model_type :: "model_type option"
  body_epochs :: "int option"
  body_batch_size :: "int option"
  body_learning_rate :: "rat option"

record optimization_body =
  body_target_module :: "string option"
  body_optimization_algorithm :: "optimization_algorithm option"
  body_max_iterations :: "int option"

definition field :: "'a \<Rightarrow> 'a option \<Rightarrow> 'a" where
  "field dflt v = (case v of None \<Rightarrow> dflt | Some x \<Rightarrow> x)"

text \<open>
  \<^verbatim>\<open>TrainingRequest\<close>: \<^verbatim>\<open>epochs = Field(default=10, ge=1, le=100)\<close>,
  \<^verbatim>\<open>batch_size = Field(default=32, ge=1, le=128)\<close>,
  \<^verbatim>\<open>learning_rate = Field(default=1e-5, ge=1e-7, le=1e-2)\<close>; \<open>None\<close> is the validation error.
\<close>

definition TrainingRequest :: "training_body \<Rightarrow> training_request option" where
  "TrainingRequest b =
     (case body_model_type b of
        None \<Rightarrow> None
      | Some mt \<Rightarrow>
          (let e = field 10 (body_epochs b);
               bs = field 32 (body_batch_size b);
               lr = field (1 / 100000) (body_learning_rate b)
           in if 1 \<le> e \<and> e \<le> 100 \<and> 1 \<le> bs \<and> bs \<le> 128 \<and> 1 / 10000000 \<le> lr \<and> lr \<le> 1 / 100
              then Some \<lparr>model_type = mt, epochs = e, batch_size = bs, learning_rate = lr\<rparr>
              else None))"

text \<open>\<^verbatim>\<open>OptimizationRequest\<close>: \<^verbatim>\<open>max_iterations = Field(default=100, ge=1, le=1000)\<close>.\<close>

definition OptimizationRequest :: "optimization_body \<Rightarrow> optimization_request option" where
  "OptimizationRequest b =
     (case body_target_module b of
        None \<Rightarrow> None
      | Some tm \<Rightarrow>
          (case body_optimization_algorithm b of
             None \<Rightarrow> None
           | Some alg \<Rightarrow>
               (let n = field 100 (body_max_iterations b)
                in if 1 \<le> n \<and> n \<le> 1000
                   then Some \<lparr>target_module = tm, optimization_algorithm = alg,
                              max_iterations = n\<rparr>
                   else None)))"

subsection \<open>Job dictionaries and the services\<close>

record 'r job =
  status :: status
  start_time :: datetime
  request :: 'r
  progress :: rat
  completion_time :: "datetime option"
  error :: "string option"

record training_metrics =
  loss :: rat
  accuracy :: rat
  epoch :: int

record training_job = "training_request job" +
  metrics :: "training_metrics option"
  current_epoch :: "int option"

record history_entry =
  h_iteration :: int
  h_score :: rat
  h_best_score :: rat
  h_improvement :: rat

record optimization_job = "optimization_request job" +
  best_score :: rat
  baseline_score :: rat
  history :: "history_entry list"

record 'j service =
  active_jobs :: "(string \<times> 'j) list"

text \<open>\<^verbatim>\<open>__init__\<close> of both services: \<^verbatim>\<open>self.active_jobs = {}\<close>.\<close>

definition TrainingService :: "training_job service" where
  "TrainingService = \<lparr>active_jobs = []\<rparr>"

definition OptimizationService :: "optimization_job service" where
  "OptimizationService = \<lparr>active_jobs = []\<rparr>"

text \<open>\<^verbatim>\<open>self.active_jobs[job_id] = job\<close>\<close>

definition set_job :: "string \<Rightarrow> 'j \<Rightarrow> 'j service \<Rightarrow> 'j service" where
  "set_job job_id j self = self\<lparr>active_jobs := AList.update job_id j (active_jobs self)\<rparr>"

text \<open>\<^verbatim>\<open>self.active_jobs.get(job_id)\<close>; \<open>None\<close> where \<^verbatim>\<open>self.active_jobs[job_id]\<close> raises.\<close>

definition get_job :: "'j service \<Rightarrow> string \<Rightarrow> 'j option" where
  "get_job self job_id = map_of (active_jobs self) job_id"

text \<open>
  The control point of a \<^verbatim>\<open>train_model\<close> / \<^verbatim>\<open>optimize_module\<close> coroutine. Both have one
  \<^verbatim>\<open>await\<close>, the \<^verbatim>\<open>asyncio.sleep\<close> of the loop body, so a coroutine is either not yet
  started, suspended there with its loop variable, returned with a value, or ended by
  an exception that left its handler.
\<close>

datatype pc = NotStarted | Sleeping int | Returned bool | Raised exn

section \<open>Training service\<close>

text \<open>Lines 43-49 of \<^verbatim>\<open>train_model\<close>: the job dictionary is created with status running.\<close>

definition train_begin ::
  "training_job service \<Rightarrow> string \<Rightarrow> training_request \<Rightarrow> datetime \<Rightarrow> training_job service" where
  "train_begin self training_id req now =
     set_job training_id
       \<lparr>status = Running, start_time = now, request = req, progress = 0,
        completion_time = None, error = None, metrics = None, current_epoch = None\<rparr> self"

text \<open>Lines 64-77: what one epoch writes after its sleep.\<close>

definition train_epoch ::
  "training_job service \<Rightarrow> string \<Rightarrow> int \<Rightarrow> int \<Rightarrow> exn + training_job service" where
  "train_epoch self training_id total_epochs ep =
     (if total_epochs = 0 then Inl ZeroDivisionError
      else case get_job self training_id of
        None \<Rightarrow> Inl (KeyError training_id)
      | Some j \<Rightarrow>
          (let prog = of_int (ep + 1) / of_int total_epochs;
               l = 1 - prog * (8 / 10);
               a = prog * (9 / 10)
           in Inr (set_job training_id
                 (j\<lparr>progress := prog, current_epoch := Some (ep + 1),
                    metrics := Some \<lparr>loss = l, accuracy = a, epoch = ep + 1\<rparr>\<rparr>) self)))"

text \<open>Lines 81-83: mark as completed.\<close>

definition train_finish ::
  "training_job service \<Rightarrow> string \<Rightarrow> datetime \<Rightarrow> exn + training_job service" where
  "train_finish self training_id now =
     (case get_job self training_id of
        None \<Rightarrow> Inl (KeyError training_id)
      | Some j \<Rightarrow>
          Inr (set_job training_id (j\<lparr>status := Completed, completion_time := Some now\<rparr>) self))"

text \<open>
  Lines 88-92, the handler of \<^verbatim>\<open>except Exception\<close>. Its own subscript raises again when the
  job is missing, and that exception leaves the coroutine.
\<close>

definition train_except ::
  "training_job service \<Rightarrow> string \<Rightarrow> exn \<Rightarrow> training_job service \<times> pc" where
  "train_except self training_id e =
     (case get_job self training_id of
        None \<Rightarrow> (self, Raised (KeyError training_id))
      | Some j \<Rightarrow>
          (set_job training_id (j\<lparr>status := Failed, error := Some (str e)\<rparr>) self,
           Returned False))"

text \<open>
  The head of \<^verbatim>\<open>for epoch in range(total_epochs)\<close> reached with the next value \<open>ep\<close>
  (lines 55-62), and what follows the loop (lines 81-86): with an epoch left, the
  cancellation check and then the sleep; with none left, completion.
\<close>

definition train_for ::
  "training_job service \<Rightarrow> string \<Rightarrow> int \<Rightarrow> int \<Rightarrow> datetime \<Rightarrow> training_job service \<times> pc" where
  "train_for self training_id total_epochs ep now =
     (if ep < total_epochs then
        (case get_job self training_id of
           None \<Rightarrow> train_except self training_id (KeyError training_id)
         | Some j \<Rightarrow> if status j = Cancelled then (self, Returned False) else (self, Sleeping ep))
      else
        (case train_finish self training_id now of
           Inl e \<Rightarrow> train_except self training_id e
         | Inr self' \<Rightarrow> (self', Returned True)))"

text \<open>
  \<^verbatim>\<open>train_model\<close>, run from a control point to the next suspension or to its return.
\<close>

fun train_model ::
  "training_job service \<Rightarrow> string \<Rightarrow> training_request \<Rightarrow> datetime \<Rightarrow> pc
     \<Rightarrow> training_job service \<times> pc" where
  "train_model self training_id req now NotStarted =
     train_for (train_begin self training_id req now) training_id (epochs req) 0 now"
| "train_model self training_id req now (Sleeping ep) =
     (case train_epoch self training_id (epochs req) ep of
        Inl e \<Rightarrow> train_except self training_id e
      | Inr self' \<Rightarrow> train_for self' training_id (epochs req) (ep + 1) now)"
| "train_model self training_id req now (Returned b) = (self, Returned b)"
| "train_model self training_id req now (Raised e) = (self, Raised e)"

text \<open>The awaited sleep raises \<^verbatim>\<open>Exception(msg)\<close> into the suspended coroutine.\<close>

fun train_model_throw ::
  "training_job service \<Rightarrow> string \<Rightarrow> string \<Rightarrow> pc \<Rightarrow> training_job service \<times> pc" where
  "train_model_throw self training_id msg (Sleeping ep) =
     train_except self training_id (Exception msg)"
| "train_model_throw self training_id msg p = (self, p)"

record TrainingProgress =
  tp_training_id :: string
  tp_status :: status
  tp_epoch :: int
  tp_total_epochs :: int
  tp_loss :: rat
  tp_accuracy :: rat
  tp_learning_rate :: rat

definition get_training_progress ::
  "training_job service \<Rightarrow> string \<Rightarrow> TrainingProgress option" where
  "get_training_progress self training_id =
     (case get_job self training_id of
        None \<Rightarrow> None
      | Some j \<Rightarrow>
          Some \<lparr>tp_training_id = training_id, tp_status = status j,
                tp_epoch = (case metrics j of None \<Rightarrow> 0 | Some m \<Rightarrow> epoch m),
                tp_total_epochs = epochs (request j),
                tp_loss = (case metrics j of None \<Rightarrow> 0 | Some m \<Rightarrow> loss m),
                tp_accuracy = (case metrics j of None \<Rightarrow> 0 | Some m \<Rightarrow> accuracy m),
                tp_learning_rate = learning_rate (request j)\<rparr>)"

record training_job_info =
  ti_training_id :: string
  ti_status :: status
  ti_model_type :: model_type
  ti_start_time :: datetime
  ti_progress :: rat
  ti_current_epoch :: int
  ti_total_epochs :: int

definition list_training_jobs :: "training_job service \<Rightarrow> training_job_info list" where
  "list_training_jobs self =
     map (\<lambda>(training_id, j).
            \<lparr>ti_training_id = training_id, ti_status = status j,
             ti_model_type = model_type (request j), ti_start_time = start_time j,
             ti_progress = progress j, ti_current_epoch = field 0 (current_epoch j),
             ti_total_epochs = epochs (request j)\<rparr>)
         (active_jobs self)"

definition cancel_training :: "training_job service \<Rightarrow> string \<Rightarrow> bool \<times> training_job service" where
  "cancel_training self training_id =
     (case get_job self training_id of
        None \<Rightarrow> (False, self)
      | Some j \<Rightarrow>
          if status j = Running
          then (True, set_job training_id (j\<lparr>status := Cancelled\<rparr>) self)
          else (False, self))"

section \<open>Optimization service\<close>

text \<open>Lines 43-51 of \<^verbatim>\<open>optimize_module\<close>.\<close>

definition optimize_begin ::
  "optimization_job service \<Rightarrow> string \<Rightarrow> optimization_request \<Rightarrow> datetime
     \<Rightarrow> optimization_job service" where
  "optimize_begin self optimization_id req now =
     set_job optimization_id
       \<lparr>status = Running, start_time = now, request = req, progress = 0,
        completion_time = None, error = None,
        best_score = 0, baseline_score = 1 / 2, history = []\<rparr> self"

text \<open>Lines 66-82: what one iteration writes after its sleep.\<close>

definition optimize_iteration ::
  "optimization_job service \<Rightarrow> string \<Rightarrow> int \<Rightarrow> int \<Rightarrow> exn + optimization_job service" where
  "optimize_iteration self optimization_id total_iterations it =
     (if total_iterations = 0 then Inl ZeroDivisionError
      else case get_job self optimization_id of
        None \<Rightarrow> Inl (KeyError optimization_id)
      | Some j \<Rightarrow>
          (let prog = of_int (it + 1) / of_int total_iterations;
               current_score = 1 / 2 + prog * (4 / 10) + of_int it * (1 / 1000);
               best = max current_score (best_score j);
               history_entry =
                 \<lparr>h_iteration = it + 1, h_score = current_score, h_best_score = best,
                  h_improvement = best - baseline_score j\<rparr>
           in Inr (set_job optimization_id
                 (j\<lparr>progress := prog, best_score := best,
                    history := history j @ [history_entry]\<rparr>) self)))"

text \<open>Lines 86-88: mark as completed.\<close>

definition optimize_finish ::
  "optimization_job service \<Rightarrow> string \<Rightarrow> datetime \<Rightarrow> exn + optimization_job service" where
  "optimize_finish self optimization_id now =
     (case get_job self optimization_id of
        None \<Rightarrow> Inl (KeyError optimization_id)
      | Some j \<Rightarrow>
          Inr (set_job optimization_id
                 (j\<lparr>status := Completed, completion_time := Some now\<rparr>) self))"

text \<open>Lines 93-97, the handler of \<^verbatim>\<open>except Exception\<close>.\<close>

definition optimize_except ::
  "optimization_job service \<Rightarrow> string \<Rightarrow> exn \<Rightarrow> optimization_job service \<times> pc" where
  "optimize_except self optimization_id e =
     (case get_job self optimization_id of
        None \<Rightarrow> (self, Raised (KeyError optimization_id))
      | Some j \<Rightarrow>
          (set_job optimization_id (j\<lparr>status := Failed, error := Some (str e)\<rparr>) self,
           Returned False))"

text \<open>
  The head of \<^verbatim>\<open>for iteration in range(total_iterations)\<close> reached with the next value
  (lines 57-64), and what follows the loop (lines 86-91).
\<close>

definition optimize_for ::
  "optimization_job service \<Rightarrow> string \<Rightarrow> int \<Rightarrow> int \<Rightarrow> datetime
     \<Rightarrow> optimization_job service \<times> pc" where
  "optimize_for self optimization_id total_iterations it now =
     (if it < total_iterations then
        (case get_job self optimization_id of
           None \<Rightarrow> optimize_except self optimization_id (KeyError optimization_id)
         | Some j \<Rightarrow> if status j = Cancelled then (self, Returned False) else (self, Sleeping it))
      else
        (case optimize_finish self optimization_id now of
           Inl e \<Rightarrow> optimize_except self optimization_id e
         | Inr self' \<Rightarrow> (self', Returned True)))"

fun optimize_module ::
  "optimization_job service \<Rightarrow> string \<Rightarrow> optimization_request \<Rightarrow> datetime \<Rightarrow> pc
     \<Rightarrow> optimization_job service \<times> pc" where
  "optimize_module self optimization_id req now NotStarted =
     optimize_for (optimize_begin self optimization_id req now) optimization_id
       (max_iterations req) 0 now"
| "optimize_module self optimization_id req now (Sleeping it) =
     (case optimize_iteration self optimization_id (max_iterations req) it of
        Inl e \<Rightarrow> optimize_except self optimization_id e
      | Inr self' \<Rightarrow> optimize_for self' optimization_id (max_iterations req) (it + 1) now)"
| "optimize_module self optimization_id req now (Returned b) = (self, Returned b)"
| "optimize_module self optimization_id req now (Raised e) = (self, Raised e)"

fun optimize_module_throw ::
  "optimization_job service \<Rightarrow> string \<Rightarrow> string \<Rightarrow> pc \<Rightarrow> optimization_job service \<times> pc" where
  "optimize_module_throw self optimization_id msg (Sleeping it) =
     optimize_except self optimization_id (Exception msg)"
| "optimize_module_throw self optimization_id msg p = (self, p)"

record OptimizationProgress =
  op_optimization_id :: string
  op_status :: status
  op_iteration :: int
  op_total_iterations :: int
  op_current_score :: rat
  op_best_score :: rat
  op_improvement :: rat

text \<open>
  Lines 112-133: the current iteration is the length of the history, the scores are
  those of its last entry.
\<close>

definition get_optimization_progress ::
  "optimization_job service \<Rightarrow> string \<Rightarrow> OptimizationProgress option" where
  "get_optimization_progress self optimization_id =
     (case get_job self optimization_id of
        None \<Rightarrow> None
      | Some j \<Rightarrow>
          (let current_iteration = int (length (history j))
           in if history j \<noteq> []
              then Some \<lparr>op_optimization_id = optimization_id, op_status = status j,
                         op_iteration = current_iteration,
                         op_total_iterations = max_iterations (request j),
                         op_current_score = h_score (last (history j)),
                         op_best_score = h_best_score (last (history j)),
                         op_improvement = h_improvement (last (history j))\<rparr>
              else Some \<lparr>op_optimization_id = optimization_id, op_status = status j,
                         op_iteration = current_iteration,
                         op_total_iterations = max_iterations (request j),
                         op_current_score = 0, op_best_score = 0, op_improvement = 0\<rparr>))"

record optimization_job_info =
  oi_optimization_id :: string
  oi_status :: status
  oi_target_module :: string
  oi_algorithm :: optimization_algorithm
  oi_start_time :: datetime
  oi_progress :: rat
  oi_best_score :: rat

definition list_optimization_jobs :: "optimization_job service \<Rightarrow> optimization_job_info list" where
  "list_optimization_jobs self =
     map (\<lambda>(optimization_id, j).
            \<lparr>oi_optimization_id = optimization_id, oi_status = status j,
             oi_target_module = target_module (request j),
             oi_algorithm = optimization_algorithm (request j),
             oi_start_time = start_time j, oi_progress = progress j,
             oi_best_score = best_score j\<rparr>)
         (active_jobs self)"

definition cancel_optimization ::
  "optimization_job service \<Rightarrow> string \<Rightarrow> bool \<times> optimization_job service" where
  "cancel_optimization self optimization_id =
     (case get_job self optimization_id of
        None \<Rightarrow> (False, self)
      | Some j \<Rightarrow>
          if status j = Running
          then (True, set_job optimization_id (j\<lparr>status := Cancelled\<rparr>) self)
          else (False, self))"

record OptimizationResult =
  res_optimization_id :: string
  res_final_score :: rat
  res_baseline_score :: rat
  res_improvement_percentage :: rat
  res_optimization_time :: rat
  res_iterations_completed :: int
  res_optimization_history :: "history_entry list"

text \<open>
  Lines 186-208. \<^verbatim>\<open>best_parameters\<close> is a constant and is left out. The division raises
  on a zero baseline and \<^verbatim>\<open>job["completion_time"]\<close> raises when the key is absent.
\<close>

definition get_optimization_results ::
  "optimization_job service \<Rightarrow> string \<Rightarrow> exn + OptimizationResult option" where
  "get_optimization_results self optimization_id =
     (case get_job self optimization_id of
        None \<Rightarrow> Inr None
      | Some j \<Rightarrow>
          if status j \<noteq> Completed then Inr None
          else if baseline_score j = 0 then Inl ZeroDivisionError
          else
            (case completion_time j of
               None \<Rightarrow> Inl (KeyError ''completion_time'')
             | Some ct \<Rightarrow>
              Inr (Some
                \<lparr>res_optimization_id = optimization_id,
                 res_final_score = best_score j,
                 res_baseline_score = baseline_score j,
                 res_improvement_percentage =
                   ((best_score j - baseline_score j) / baseline_score j) * 100,
                 res_optimization_time = total_seconds (ct - start_time j),
                 res_iterations_completed = int (length (history j)),
                 res_optimization_history = history j\<rparr>)))"

section \<open>Coroutines sharing one service\<close>

text \<open>
  A service object together with the \<^verbatim>\<open>train_model\<close> / \<^verbatim>\<open>optimize_module\<close> coroutines
  that were handed to the event loop for it. The event loop runs one coroutine at a
  time, from one \<^verbatim>\<open>await\<close> to the next; \<^verbatim>\<open>cancel_training\<close> and the read operations
  have no \<^verbatim>\<open>await\<close> and run in between. The only caller of \<^verbatim>\<open>train_model\<close> is
  \<^verbatim>\<open>start_training\<close>, with a \<^verbatim>\<open>uuid4\<close> of its own, so a job id has at most one coroutine:
  \<open>Spawn\<close> for an id that has one already is not a step of the system.
\<close>

record 'r task =
  task_request :: 'r
  task_pc :: pc

record ('j, 'r) sys =
  svc :: "'j service"
  tasks :: "string \<Rightarrow> 'r task option"

datatype 'r event =
  Spawn string 'r
  | Resume string datetime
  | Throw string string
  | Cancel string

definition spawn :: "string \<Rightarrow> 'r \<Rightarrow> ('j, 'r) sys \<Rightarrow> ('j, 'r) sys" where
  "spawn job_id req s =
     (case tasks s job_id of
        None \<Rightarrow> s\<lparr>tasks := (tasks s)(job_id \<mapsto> \<lparr>task_request = req, task_pc = NotStarted\<rparr>)\<rparr>
      | Some t \<Rightarrow> s)"

definition run_task ::
  "('j service \<Rightarrow> string \<Rightarrow> 'r \<Rightarrow> pc \<Rightarrow> 'j service \<times> pc) \<Rightarrow> string
     \<Rightarrow> ('j, 'r) sys \<Rightarrow> ('j, 'r) sys" where
  "run_task body job_id s =
     (case tasks s job_id of
        None \<Rightarrow> s
      | Some t \<Rightarrow>
          (let (self', p') = body (svc s) job_id (task_request t) (task_pc t)
           in s\<lparr>svc := self', tasks := (tasks s)(job_id \<mapsto> t\<lparr>task_pc := p'\<rparr>)\<rparr>))"

fun training_step ::
  "training_request event \<Rightarrow> (training_job, training_request) sys
     \<Rightarrow> (training_job, training_request) sys" where
  "training_step (Spawn training_id req) s = spawn training_id req s"
| "training_step (Resume training_id now) s =
     run_task (\<lambda>self i req p. train_model self i req now p) training_id s"
| "training_step (Throw training_id msg) s =
     run_task (\<lambda>self i req p. train_model_throw self i msg p) training_id s"
| "training_step (Cancel training_id) s = s\<lparr>svc := snd (cancel_training (svc s) training_id)\<rparr>"

fun optimization_step ::
  "optimization_request event \<Rightarrow> (optimization_job, optimization_request) sys
     \<Rightarrow> (optimization_job, optimization_request) sys" where
  "optimization_step (Spawn optimization_id req) s = spawn optimization_id req s"
| "optimization_step (Resume optimization_id now) s =
     run_task (\<lambda>self i req p. optimize_module self i req now p) optimization_id s"
| "optimization_step (Throw optimization_id msg) s =
     run_task (\<lambda>self i req p. optimize_module_throw self i msg p) optimization_id s"
| "optimization_step (Cancel optimization_id) s =
     s\<lparr>svc := snd (cancel_optimization (svc s) optimization_id)\<rparr>"

definition training_init :: "(training_job, training_request) sys" where
  "training_init = \<lparr>svc = TrainingService, tasks = Map.empty\<rparr>"

definition optimization_init :: "(optimization_job, optimization_request) sys" where
  "optimization_init = \<lparr>svc = OptimizationService, tasks = Map.empty\<rparr>"

text \<open>The state after a sequence of events, the first event first.\<close>

definition training_run ::
  "(training_job, training_request) sys \<Rightarrow> training_request event list
     \<Rightarrow> (training_job, training_request) sys" where
  "training_run s evs = foldl (\<lambda>s ev. training_step ev s) s evs"

definition optimization_run ::
  "(optimization_job, optimization_request) sys \<Rightarrow> optimization_request event list
     \<Rightarrow> (optimization_job, optimization_request) sys" where
  "optimization_run s evs = foldl (\<lambda>s ev. optimization_step ev s) s evs"

section \<open>Endpoints\<close>

text \<open>
  \<^verbatim>\<open>get_training_service\<close> and \<^verbatim>\<open>get_optimization_service\<close>, the dependencies of every
  endpoint: each call constructs a service.
\<close>

definition get_training_service :: "training_job service" where
  "get_training_service = TrainingService"

definition get_optimization_service :: "optimization_job service" where
  "get_optimization_service = OptimizationService"

record TrainingResponse =
  resp_training_id :: string
  resp_status :: status
  resp_model_type :: model_type
  resp_start_time :: datetime
  resp_total_epochs :: int

record OptimizationResponse =
  resp_optimization_id :: string
  resp_ostatus :: status
  resp_target_module :: string
  resp_algorithm :: optimization_algorithm
  resp_ostart_time :: datetime
  resp_total_iterations :: int

datatype http_response =
  TrainingStarted TrainingResponse
  | OptimizationStarted OptimizationResponse
  | TrainingStatus TrainingProgress
  | OptimizationStatus OptimizationProgress
  | TrainingJobs "training_job_info list"
  | OptimizationJobs "optimization_job_info list"
  | OptimizationResults OptimizationResult
  | Message string
  | HTTPException nat string
  | RequestValidationError

text \<open>
  \<^verbatim>\<open>start_training\<close>: \<open>uuid4\<close> is the value of \<^verbatim>\<open>str(uuid.uuid4())\<close>. The endpoint answers
  with status pending and hands \<^verbatim>\<open>training_service.train_model\<close> to the background
  tasks: the result is the response and the service with that coroutine, not started.
\<close>

definition start_training ::
  "training_request \<Rightarrow> string \<Rightarrow> datetime \<Rightarrow> training_job service
     \<Rightarrow> http_response \<times> (training_job, training_request) sys" where
  "start_training req uuid4 now training_service =
     (TrainingStarted
        \<lparr>resp_training_id = uuid4, resp_status = Pending, resp_model_type = model_type req,
         resp_start_time = now, resp_total_epochs = epochs req\<rparr>,
      spawn uuid4 req \<lparr>svc = training_service, tasks = Map.empty\<rparr>)"

definition start_optimization ::
  "optimization_request \<Rightarrow> string \<Rightarrow> datetime \<Rightarrow> optimization_job service
     \<Rightarrow> http_response \<times> (optimization_job, optimization_request) sys" where
  "start_optimization req uuid4 now optimization_service =
     (OptimizationStarted
        \<lparr>resp_optimization_id = uuid4, resp_ostatus = Pending,
         resp_target_module = target_module req,
         resp_algorithm = optimization_algorithm req,
         resp_ostart_time = now, resp_total_iterations = max_iterations req\<rparr>,
      spawn uuid4 req \<lparr>svc = optimization_service, tasks = Map.empty\<rparr>)"

definition get_training_status :: "string \<Rightarrow> training_job service \<Rightarrow> http_response" where
  "get_training_status training_id training_service =
     (case get_training_progress training_service training_id of
        None \<Rightarrow> HTTPException 404 ''Training job not found''
      | Some p \<Rightarrow> TrainingStatus p)"

definition get_optimization_status ::
  "string \<Rightarrow> optimization_job service \<Rightarrow> http_response" where
  "get_optimization_status optimization_id optimization_service =
     (case get_optimization_progress optimization_service optimization_id of
        None \<Rightarrow> HTTPException 404 ''Optimization job not found''
      | Some p \<Rightarrow> OptimizationStatus p)"

definition list_training_jobs_endpoint :: "training_job service \<Rightarrow> http_response" where
  "list_training_jobs_endpoint training_service =
     TrainingJobs (list_training_jobs training_service)"

definition list_optimization_jobs_endpoint :: "optimization_job service \<Rightarrow> http_response" where
  "list_optimization_jobs_endpoint optimization_service =
     OptimizationJobs (list_optimization_jobs optimization_service)"

definition cancel_training_endpoint :: "string \<Rightarrow> training_job service \<Rightarrow> http_response" where
  "cancel_training_endpoint training_id training_service =
     (if fst (cancel_training training_service training_id)
      then Message (''Training job '' @ training_id @ '' cancelled successfully'')
      else HTTPException 404 ''Training job not found or already completed'')"

definition cancel_optimization_endpoint ::
  "string \<Rightarrow> optimization_job service \<Rightarrow> http_response" where
  "cancel_optimization_endpoint optimization_id optimization_service =
     (if fst (cancel_optimization optimization_service optimization_id)
      then Message (''Optimization job '' @ optimization_id @ '' cancelled successfully'')
      else HTTPException 404 ''Optimization job not found or already completed'')"

definition get_optimization_results_endpoint ::
  "string \<Rightarrow> optimization_job service \<Rightarrow> http_response" where
  "get_optimization_results_endpoint optimization_id optimization_service =
     (case get_optimization_results optimization_service optimization_id of
        Inl e \<Rightarrow> HTTPException 500 (str e)
      | Inr None \<Rightarrow> HTTPException 404 ''Optimization job not found or not completed''
      | Inr (Some r) \<Rightarrow> OptimizationResults r)"

subsection \<open>The application\<close>

text \<open>
  What exists while the application runs: for every accepted start request, the
  service object that request constructed, with the coroutine it handed to the
  background tasks. A request is validated against its model, the dependency is
  resolved by a call of \<^verbatim>\<open>get_training_service\<close> / \<^verbatim>\<open>get_optimization_service\<close>, and
  the endpoint runs on the result. Between requests the event loop wakes background
  coroutines, or their sleep raises.
\<close>

record world =
  training_apps :: "(string \<times> (training_job, training_request) sys) list"
  optimization_apps :: "(string \<times> (optimization_job, optimization_request) sys) list"

datatype http_request =
  PostTrainingStart training_body string datetime
  | GetTrainingStatus string
  | GetTrainingJobs
  | PostTrainingCancel string
  | PostOptimizationStart optimization_body string datetime
  | GetOptimizationStatus string
  | GetOptimizationJobs
  | PostOptimizationCancel string
  | GetOptimizationResults string

fun serve :: "http_request \<Rightarrow> world \<Rightarrow> http_response \<times> world" where
  "serve (PostTrainingStart body uuid4 now) w =
     (case TrainingRequest body of
        None \<Rightarrow> (RequestValidationError, w)
      | Some req \<Rightarrow>
          (let (resp, app) = start_training req uuid4 now get_training_service
           in (resp, w\<lparr>training_apps := training_apps w @ [(uuid4, app)]\<rparr>)))"
| "serve (GetTrainingStatus training_id) w =
     (get_training_status training_id get_training_service, w)"
| "serve GetTrainingJobs w = (list_training_jobs_endpoint get_training_service, w)"
| "serve (PostTrainingCancel training_id) w =
     (cancel_training_endpoint training_id get_training_service, w)"
| "serve (PostOptimizationStart body uuid4 now) w =
     (case OptimizationRequest body of
        None \<Rightarrow> (RequestValidationError, w)
      | Some req \<Rightarrow>
          (let (resp, app) = start_optimization req uuid4 now get_optimization_service
           in (resp, w\<lparr>optimization_apps := optimization_apps w @ [(uuid4, app)]\<rparr>)))"
| "serve (GetOptimizationStatus optimization_id) w =
     (get_optimization_status optimization_id get_optimization_service, w)"
| "serve GetOptimizationJobs w = (list_optimization_jobs_endpoint get_optimization_service, w)"
| "serve (PostOptimizationCancel optimization_id) w =
     (cancel_optimization_endpoint optimization_id get_optimization_service, w)"
| "serve (GetOptimizationResults optimization_id) w =
     (get_optimization_results_endpoint optimization_id get_optimization_service, w)"





definition world_init :: world where
  "world_init = \<lparr>training_apps = [], optimization_apps = []\<rparr>"





section \<open>What holds of a job and its coroutine\<close>

text \<open>
  The relation between the entry of a job id in \<^verbatim>\<open>active_jobs\<close> and the control point of
  the coroutine of that id. It holds of the empty service and every step keeps it.
\<close>

definition training_job_ok :: "training_job option \<Rightarrow> training_request task option \<Rightarrow> bool" where
  "training_job_ok jo to =
     (case to of
        None \<Rightarrow> jo = None
      | Some t \<Rightarrow>
          (case task_pc t of
             NotStarted \<Rightarrow> jo = None
           | Sleeping ep \<Rightarrow>
               (case jo of
                  None \<Rightarrow> False
                | Some j \<Rightarrow>
                    (status j = Running \<or> status j = Cancelled) \<and> completion_time j = None
                    \<and> 0 \<le> ep \<and> ep < epochs (task_request t)
                    \<and> field 0 (current_epoch j) = ep \<and> request j = task_request t)
           | Returned b \<Rightarrow>
               (case jo of
                  None \<Rightarrow> False
                | Some j \<Rightarrow>
                    if b then status j = Completed \<and> completion_time j \<noteq> None
                    else (status j = Cancelled \<or> status j = Failed) \<and> completion_time j = None)
           | Raised e \<Rightarrow> False))"

definition training_inv :: "(training_job, training_request) sys \<Rightarrow> string \<Rightarrow> bool" where
  "training_inv s i = training_job_ok (get_job (svc s) i) (tasks s i)"

definition optimization_job_ok ::
  "optimization_job option \<Rightarrow> optimization_request task option \<Rightarrow> bool" where
  "optimization_job_ok jo to =
     (case to of
        None \<Rightarrow> jo = None
      | Some t \<Rightarrow>
          (case task_pc t of
             NotStarted \<Rightarrow> jo = None
           | Sleeping it \<Rightarrow>
               (case jo of
                  None \<Rightarrow> False
                | Some j \<Rightarrow>
                    (status j = Running \<or> status j = Cancelled) \<and> completion_time j = None
                    \<and> 0 \<le> it \<and> it < max_iterations (task_request t)
                    \<and> int (length (history j)) = it
                    \<and> map h_iteration (history j) = [1..it]
                    \<and> baseline_score j = 1 / 2 \<and> request j = task_request t)
           | Returned b \<Rightarrow>
               (case jo of
                  None \<Rightarrow> False
                | Some j \<Rightarrow>
                    map h_iteration (history j) = [1..int (length (history j))]
                    \<and> baseline_score j = 1 / 2 \<and> request j = task_request t
                    \<and> (if b then status j = Completed \<and> completion_time j \<noteq> None
                              \<and> int (length (history j)) = max 0 (max_iterations (request j))
                        else (status j = Cancelled \<or> status j = Failed)
                              \<and> completion_time j = None
                              \<and> int (length (history j)) \<le> max_iterations (request j)))
           | Raised e \<Rightarrow> False))"

definition optimization_inv :: "(optimization_job, optimization_request) sys \<Rightarrow> string \<Rightarrow> bool" where
  "optimization_inv s i = optimization_job_ok (get_job (svc s) i) (tasks s i)"

text \<open>The job id an event is about.\<close>

fun event_id :: "'r event \<Rightarrow> string" where
  "event_id (Spawn i r) = i"
| "event_id (Resume i n) = i"
| "event_id (Throw i m) = i"
| "event_id (Cancel i) = i"

section \<open>Basic facts about the registry\<close>

lemma get_job_set_job:
  "get_job (set_job k j self) i = (if i = k then Some j else get_job self i)"
  by (simp add: get_job_def set_job_def update_conv')

lemma ids_set_job:
  "get_job self k \<noteq> None \<Longrightarrow>
     map fst (active_jobs (set_job k j self)) = map fst (active_jobs self)"
  by (auto simp: get_job_def set_job_def update_keys map_of_eq_None_iff)


section \<open>The relation is kept by every step\<close>

lemmas train_defs = train_begin_def train_epoch_def train_finish_def train_except_def train_for_def

lemma train_model_other:
  "k \<noteq> i \<Longrightarrow> get_job (fst (train_model self i req now p)) k = get_job self k"
  by (cases p) (auto simp: train_defs get_job_set_job split: option.splits sum.splits)

lemma train_model_throw_other:
  "k \<noteq> i \<Longrightarrow> get_job (fst (train_model_throw self i msg p)) k = get_job self k"
  by (cases p) (auto simp: train_defs get_job_set_job split: option.splits sum.splits)

lemma cancel_training_other:
  "k \<noteq> i \<Longrightarrow> get_job (snd (cancel_training self i)) k = get_job self k"
  by (auto simp: cancel_training_def get_job_set_job split: option.splits)

lemma training_step_other:
  "event_id ev \<noteq> k \<Longrightarrow>
   get_job (svc (training_step ev s)) k = get_job (svc s) k \<and> tasks (training_step ev s) k = tasks s k"
  by (cases ev)
    (auto simp: spawn_def run_task_def split_beta train_model_other train_model_throw_other
       cancel_training_other split: option.splits)

lemma training_inv_step_same:
  assumes "training_inv s i"
  shows "training_inv (training_step (Resume i now) s) i"
    and "training_inv (training_step (Throw i msg) s) i"
    and "training_inv (training_step (Cancel i) s) i"
    and "training_inv (training_step (Spawn i req) s) i"
  using assms
  by (auto simp: training_inv_def training_job_ok_def spawn_def run_task_def train_defs get_job_set_job
      cancel_training_def field_def
       split: option.splits prod.splits pc.splits sum.splits if_splits)


lemma training_inv_step: "training_inv s i \<Longrightarrow> training_inv (training_step ev s) i"
proof (cases "event_id ev = i")
  case True
  assume "training_inv s i"
  with True show ?thesis
    by (cases ev) (auto simp del: training_step.simps simp: training_inv_step_same)
next
  case False
  assume "training_inv s i"
  with training_step_other[OF False, of s] show ?thesis
    by (simp add: training_inv_def)
qed

lemma training_inv_run: "training_inv s i \<Longrightarrow> training_inv (training_run s evs) i"
  unfolding training_run_def
  by (induction evs arbitrary: s) (auto simp: training_inv_step)

lemma training_inv_init: "training_inv training_init i"
  by (simp add: training_inv_def training_init_def TrainingService_def training_job_ok_def get_job_def)


lemmas optimize_defs = optimize_begin_def optimize_iteration_def optimize_finish_def
  optimize_except_def optimize_for_def

lemma upto_snoc: "0 \<le> n \<Longrightarrow> [1..n + 1] = [1..n] @ [n + 1]"
  by (cases "n = 0") (simp_all add: upto_rec2)

lemma upto_snoc_length: "[1..int (length xs)] @ [int (length xs) + 1] = [1..1 + int (length xs)]"
  using upto_snoc [of "int (length xs)"] by (simp add: add.commute)

lemma optimize_module_other:
  "k \<noteq> i \<Longrightarrow> get_job (fst (optimize_module self i req now p)) k = get_job self k"
  by (cases p) (auto simp: optimize_defs get_job_set_job Let_def split: option.splits sum.splits)

lemma optimize_module_throw_other:
  "k \<noteq> i \<Longrightarrow> get_job (fst (optimize_module_throw self i msg p)) k = get_job self k"
  by (cases p) (auto simp: optimize_defs get_job_set_job split: option.splits sum.splits)

lemma cancel_optimization_other:
  "k \<noteq> i \<Longrightarrow> get_job (snd (cancel_optimization self i)) k = get_job self k"
  by (auto simp: cancel_optimization_def get_job_set_job split: option.splits)

lemma optimization_step_other:
  "event_id ev \<noteq> k \<Longrightarrow>
   get_job (svc (optimization_step ev s)) k = get_job (svc s) k
   \<and> tasks (optimization_step ev s) k = tasks s k"
  by (cases ev)
    (auto simp: spawn_def run_task_def split_beta optimize_module_other
       optimize_module_throw_other cancel_optimization_other split: option.splits)

lemma optimization_inv_step_same:
  assumes "optimization_inv s i"
  shows "optimization_inv (optimization_step (Resume i now) s) i"
    and "optimization_inv (optimization_step (Throw i msg) s) i"
    and "optimization_inv (optimization_step (Cancel i) s) i"
    and "optimization_inv (optimization_step (Spawn i req) s) i"
  using assms
  by (auto simp: optimization_inv_def optimization_job_ok_def spawn_def run_task_def optimize_defs
      get_job_set_job cancel_optimization_def Let_def upto_snoc upto_snoc_length
       split: option.splits prod.splits pc.splits sum.splits if_splits)

lemma optimization_inv_step:
  "optimization_inv s i \<Longrightarrow> optimization_inv (optimization_step ev s) i"
proof (cases "event_id ev = i")
  case True
  assume "optimization_inv s i"
  with True show ?thesis
    by (cases ev) (auto simp del: optimization_step.simps simp: optimization_inv_step_same)
next
  case False
  assume "optimization_inv s i"
  with optimization_step_other[OF False, of s] show ?thesis
    by (simp add: optimization_inv_def)
qed

lemma optimization_inv_run:
  "optimization_inv s i \<Longrightarrow> optimization_inv (optimization_run s evs) i"
  unfolding optimization_run_def
  by (induction evs arbitrary: s) (auto simp: optimization_inv_step)

lemma optimization_inv_init: "optimization_inv optimization_init i"
  by (simp add: optimization_inv_def optimization_init_def OptimizationService_def
      optimization_job_ok_def get_job_def)

section \<open>Reachable states\<close>

lemma training_reachable: "training_inv (training_run training_init evs) i"
  by (rule training_inv_run) (rule training_inv_init)

lemma optimization_reachable: "optimization_inv (optimization_run optimization_init evs) i"
  by (rule optimization_inv_run) (rule optimization_inv_init)

text \<open>
  Once the coroutine of a job has returned and the status is not running, no event
  changes the job or the coroutine.
\<close>

lemma task_pc_same: "task_pc t = p \<Longrightarrow> t\<lparr>task_pc := p\<rparr> = t"
  by (cases t) simp

lemma training_returned_stays:
  assumes "tasks s i = Some t" "task_pc t = Returned b" "get_job (svc s) i = Some j"
    "status j \<noteq> Running"
  shows "tasks (training_step ev s) i = Some t \<and> get_job (svc (training_step ev s)) i = Some j"
proof (cases "event_id ev = i")
  case True
  with assms show ?thesis
    by (cases ev) (auto simp: spawn_def run_task_def cancel_training_def task_pc_same)
next
  case False
  with assms training_step_other [OF False, of s] show ?thesis by simp
qed

lemma training_returned_stays_run:
  assumes "tasks s i = Some t" "task_pc t = Returned b" "get_job (svc s) i = Some j"
    "status j \<noteq> Running"
  shows "tasks (training_run s evs) i = Some t \<and> get_job (svc (training_run s evs)) i = Some j"
  using assms unfolding training_run_def
proof (induction evs arbitrary: s)
  case Nil
  then show ?case by simp
next
  case (Cons ev evs)
  from training_returned_stays [OF Cons.prems, of ev]
  have "tasks (training_step ev s) i = Some t" "get_job (svc (training_step ev s)) i = Some j"
    by simp_all
  from Cons.IH [OF this(1) Cons.prems(2) this(2) Cons.prems(4)] show ?case by simp
qed

lemma optimization_returned_stays:
  assumes "tasks s i = Some t" "task_pc t = Returned b" "get_job (svc s) i = Some j"
    "status j \<noteq> Running"
  shows "tasks (optimization_step ev s) i = Some t
       \<and> get_job (svc (optimization_step ev s)) i = Some j"
proof (cases "event_id ev = i")
  case True
  with assms show ?thesis
    by (cases ev) (auto simp: spawn_def run_task_def cancel_optimization_def task_pc_same)
next
  case False
  with assms optimization_step_other [OF False, of s] show ?thesis by simp
qed

lemma optimization_returned_stays_run:
  assumes "tasks s i = Some t" "task_pc t = Returned b" "get_job (svc s) i = Some j"
    "status j \<noteq> Running"
  shows "tasks (optimization_run s evs) i = Some t
       \<and> get_job (svc (optimization_run s evs)) i = Some j"
  using assms unfolding optimization_run_def
proof (induction evs arbitrary: s)
  case Nil
  then show ?case by simp
next
  case (Cons ev evs)
  from optimization_returned_stays [OF Cons.prems, of ev]
  have "tasks (optimization_step ev s) i = Some t"
    "get_job (svc (optimization_step ev s)) i = Some j"
    by simp_all
  from Cons.IH [OF this(1) Cons.prems(2) this(2) Cons.prems(4)] show ?case by simp
qed

text \<open>What the relation says about a job that is in the registry.\<close>

lemma training_job_facts:
  assumes "training_inv s i" "get_job (svc s) i = Some j"
  shows "status j \<noteq> Pending"
    and "(completion_time j \<noteq> None) = (status j = Completed)"
    and "\<exists>t. tasks s i = Some t \<and> task_pc t \<noteq> NotStarted
           \<and> (status j = Completed \<longrightarrow> task_pc t = Returned True)
           \<and> (status j = Failed \<longrightarrow> task_pc t = Returned False)"
  using assms
  by (auto simp: training_inv_def training_job_ok_def split: option.splits pc.splits if_splits)

lemma optimization_job_facts:
  assumes "optimization_inv s i" "get_job (svc s) i = Some j"
  shows "status j \<noteq> Pending"
    and "(completion_time j \<noteq> None) = (status j = Completed)"
    and "\<exists>t. tasks s i = Some t \<and> task_pc t \<noteq> NotStarted
           \<and> (status j = Completed \<longrightarrow> task_pc t = Returned True)
           \<and> (status j = Failed \<longrightarrow> task_pc t = Returned False)"
    and "map h_iteration (history j) = [1..int (length (history j))]"
    and "baseline_score j = 1 / 2"
    and "status j = Completed \<Longrightarrow> int (length (history j)) = max 0 (max_iterations (request j))"
    and "\<And>t it. tasks s i = Some t \<Longrightarrow> task_pc t = Sleeping it \<Longrightarrow> int (length (history j)) = it"
  using assms
  by (auto simp: optimization_inv_def optimization_job_ok_def
      split: option.splits pc.splits if_splits)

lemmas run_simps = training_run_def training_init_def TrainingService_def spawn_def run_task_def
  train_defs set_job_def get_job_def cancel_training_def
  optimization_run_def optimization_init_def OptimizationService_def optimize_defs
  cancel_optimization_def Let_def

section \<open>The endpoint layer\<close>

text \<open>
  C1. Every endpoint call constructs its own service, whose \<^verbatim>\<open>active_jobs\<close> is empty. So
  in every state \<open>w\<close> of the application, whatever was submitted before, and for every
  job id, the status endpoint answers 404 (not found), the list endpoint answers with
  no job, the cancel endpoint answers 404, and the results endpoint answers 404; this
  holds for the training and for the optimization endpoints.
\<close>

theorem endpoint_reads_never_find_a_job:
  "active_jobs get_training_service = [] \<and> active_jobs get_optimization_service = []
   \<and> fst (serve (GetTrainingStatus job_id) w) = HTTPException 404 ''Training job not found''
   \<and> fst (serve GetTrainingJobs w) = TrainingJobs []
   \<and> fst (serve (PostTrainingCancel job_id) w)
       = HTTPException 404 ''Training job not found or already completed''
   \<and> fst (serve (GetOptimizationStatus job_id) w)
       = HTTPException 404 ''Optimization job not found''
   \<and> fst (serve GetOptimizationJobs w) = OptimizationJobs []
   \<and> fst (serve (PostOptimizationCancel job_id) w)
       = HTTPException 404 ''Optimization job not found or already completed''
   \<and> fst (serve (GetOptimizationResults job_id) w)
       = HTTPException 404 ''Optimization job not found or not completed''"
  by (simp add: get_training_service_def get_optimization_service_def TrainingService_def
      OptimizationService_def get_training_status_def get_optimization_status_def
      get_training_progress_def get_optimization_progress_def get_job_def
      list_training_jobs_endpoint_def list_optimization_jobs_endpoint_def
      list_training_jobs_def list_optimization_jobs_def
      cancel_training_endpoint_def cancel_optimization_endpoint_def
      cancel_training_def cancel_optimization_def
      get_optimization_results_endpoint_def get_optimization_results_def)

text \<open>
  C9. A start request whose \<^verbatim>\<open>epochs\<close> (training) or \<^verbatim>\<open>max_iterations\<close> (optimization) is
  less than 1 fails validation: the endpoint is not run, the answer is the validation
  error, and the state of the application is unchanged, so no service, coroutine or job
  comes to exist for it.
\<close>

theorem nonpositive_total_steps_rejected:
  assumes "n < 1"
  shows "serve (PostTrainingStart (b\<lparr>body_epochs := Some n\<rparr>) uuid4 now) w
           = (RequestValidationError, w)
       \<and> serve (PostOptimizationStart (ob\<lparr>body_max_iterations := Some n\<rparr>) uuid4 now) w
           = (RequestValidationError, w)"
  using assms
  by (simp add: TrainingRequest_def OptimizationRequest_def field_def split: option.splits)

theorem nonpositive_total_steps_rejected_witness:
  "(0::int) < 1
   \<and> serve (PostTrainingStart
        \<lparr>body_model_type = Some RAG, body_epochs = Some 0, body_batch_size = None,
         body_learning_rate = None\<rparr> ''job'' 0) world_init
       = (RequestValidationError, world_init)
   \<and> serve (PostOptimizationStart
        \<lparr>body_target_module = Some ''m'', body_optimization_algorithm = Some RANDOM_SEARCH,
         body_max_iterations = Some 0\<rparr> ''job'' 0) world_init
       = (RequestValidationError, world_init)"
  using nonpositive_total_steps_rejected [of 0
      "\<lparr>body_model_type = Some RAG, body_epochs = None, body_batch_size = None,
         body_learning_rate = None\<rparr>"
      "''job''" 0 world_init
      "\<lparr>body_target_module = Some ''m'', body_optimization_algorithm = Some RANDOM_SEARCH,
         body_max_iterations = None\<rparr>"]
  by simp

section \<open>Cancellation\<close>

text \<open>
  C2, as the specification states it, fails: \<^verbatim>\<open>cancel_training\<close> on a running job writes
  the status. Here the job has just been started; its status is running before the
  call and cancelled after it.
\<close>

theorem cancel_training_changes_status:
  "map_option status (get_job (snd (cancel_training
      (svc (training_run training_init
         [Spawn ''job'' \<lparr>model_type = RAG, epochs = 3, batch_size = 32,
                          learning_rate = 1 / 100000\<rparr>,
          Resume ''job'' 0])) ''job'')) ''job'') = Some Cancelled
   \<and> map_option status (get_job
      (svc (training_run training_init
         [Spawn ''job'' \<lparr>model_type = RAG, epochs = 3, batch_size = 32,
                          learning_rate = 1 / 100000\<rparr>,
          Resume ''job'' 0])) ''job'') = Some Running"
  by (simp add: training_run_def training_init_def TrainingService_def spawn_def run_task_def
      train_begin_def train_for_def set_job_def get_job_def cancel_training_def)

text \<open>
  C2, amended. The services have no cancellation flag apart from the status: for every
  state of the registry, \<^verbatim>\<open>cancel_training\<close> and \<^verbatim>\<open>cancel_optimization\<close> change the status
  of the named job from running to cancelled and change nothing else. A job with
  another status, every other field of the named job, every other job and the order of
  the registry are as before.
\<close>

theorem cancel_only_turns_running_into_cancelled:
  "get_job (snd (cancel_training self job_id)) k
     = map_option (\<lambda>j. if k = job_id \<and> status j = Running then j\<lparr>status := Cancelled\<rparr> else j)
         (get_job self k)
   \<and> map fst (active_jobs (snd (cancel_training self job_id))) = map fst (active_jobs self)
   \<and> get_job (snd (cancel_optimization oself job_id)) k
     = map_option (\<lambda>j. if k = job_id \<and> status j = Running then j\<lparr>status := Cancelled\<rparr> else j)
         (get_job oself k)
   \<and> map fst (active_jobs (snd (cancel_optimization oself job_id)))
     = map fst (active_jobs oself)"
proof -
  have id: "\<And>x :: 'z option. map_option (\<lambda>j. j) x = x"
    by (simp add: option.map_ident)
  have t: "get_job (snd (cancel_training self job_id)) k
     = map_option (\<lambda>j. if k = job_id \<and> status j = Running then j\<lparr>status := Cancelled\<rparr> else j)
         (get_job self k)"
    by (cases "k = job_id")
      (auto simp: cancel_training_def get_job_set_job id split: option.splits)
  have o: "get_job (snd (cancel_optimization oself job_id)) k
     = map_option (\<lambda>j. if k = job_id \<and> status j = Running then j\<lparr>status := Cancelled\<rparr> else j)
         (get_job oself k)"
    by (cases "k = job_id")
      (auto simp: cancel_optimization_def get_job_set_job id split: option.splits)
  have ti: "map fst (active_jobs (snd (cancel_training self job_id)))
      = map fst (active_jobs self)"
    by (auto simp: cancel_training_def ids_set_job split: option.splits)
  have oi: "map fst (active_jobs (snd (cancel_optimization oself job_id)))
      = map fst (active_jobs oself)"
    by (auto simp: cancel_optimization_def ids_set_job split: option.splits)
  from t o ti oi show ?thesis by simp
qed

text \<open>
  C6. In every state that the training service, or the optimization service, reaches
  from its start by coroutine steps and cancel calls, and for every job id: the cancel
  operation returns true if and only if the job is in the registry and its status is
  none of completed, failed, cancelled; when it returns false, the registry is
  unchanged; and a cancel call that follows a cancel call on the same id returns
  false, so two calls on a running job yield true, then false.
\<close>

theorem cancel_returns_true_iff_not_terminal:
  "fst (cancel_training (svc (training_run training_init evs)) job_id)
     = (\<exists>j. get_job (svc (training_run training_init evs)) job_id = Some j
            \<and> status j \<noteq> Completed \<and> status j \<noteq> Failed \<and> status j \<noteq> Cancelled)
   \<and> (\<not> fst (cancel_training (svc (training_run training_init evs)) job_id) \<longrightarrow>
        snd (cancel_training (svc (training_run training_init evs)) job_id)
          = svc (training_run training_init evs))
   \<and> \<not> fst (cancel_training
             (snd (cancel_training (svc (training_run training_init evs)) job_id)) job_id)
   \<and> fst (cancel_optimization (svc (optimization_run optimization_init oevs)) job_id)
     = (\<exists>j. get_job (svc (optimization_run optimization_init oevs)) job_id = Some j
            \<and> status j \<noteq> Completed \<and> status j \<noteq> Failed \<and> status j \<noteq> Cancelled)
   \<and> (\<not> fst (cancel_optimization (svc (optimization_run optimization_init oevs)) job_id) \<longrightarrow>
        snd (cancel_optimization (svc (optimization_run optimization_init oevs)) job_id)
          = svc (optimization_run optimization_init oevs))
   \<and> \<not> fst (cancel_optimization
             (snd (cancel_optimization (svc (optimization_run optimization_init oevs)) job_id))
             job_id)"
proof -
  let ?S = "svc (training_run training_init evs)"
  let ?O = "svc (optimization_run optimization_init oevs)"
  have np: "\<And>j. get_job ?S job_id = Some j \<Longrightarrow> status j \<noteq> Pending"
    using training_job_facts(1) [OF training_reachable] by blast
  have onp: "\<And>j. get_job ?O job_id = Some j \<Longrightarrow> status j \<noteq> Pending"
    using optimization_job_facts(1) [OF optimization_reachable] by blast
  have t1: "fst (cancel_training ?S job_id)
     = (\<exists>j. get_job ?S job_id = Some j
            \<and> status j \<noteq> Completed \<and> status j \<noteq> Failed \<and> status j \<noteq> Cancelled)"
  proof (cases "get_job ?S job_id")
    case None
    then show ?thesis by (simp add: cancel_training_def)
  next
    case (Some j)
    with np [OF Some] show ?thesis
      by (cases "status j") (simp_all add: cancel_training_def)
  qed
  have o1: "fst (cancel_optimization ?O job_id)
     = (\<exists>j. get_job ?O job_id = Some j
            \<and> status j \<noteq> Completed \<and> status j \<noteq> Failed \<and> status j \<noteq> Cancelled)"
  proof (cases "get_job ?O job_id")
    case None
    then show ?thesis by (simp add: cancel_optimization_def)
  next
    case (Some j)
    with onp [OF Some] show ?thesis
      by (cases "status j") (simp_all add: cancel_optimization_def)
  qed
  have t2: "\<And>S. \<not> fst (cancel_training S job_id) \<longrightarrow> snd (cancel_training S job_id) = S"
    by (simp add: cancel_training_def split: option.splits)
  have o2: "\<And>S. \<not> fst (cancel_optimization S job_id) \<longrightarrow> snd (cancel_optimization S job_id) = S"
    by (simp add: cancel_optimization_def split: option.splits)
  have t3: "\<And>S. \<not> fst (cancel_training (snd (cancel_training S job_id)) job_id)"
    by (auto simp: cancel_training_def get_job_set_job split: option.splits)
  have o3: "\<And>S. \<not> fst (cancel_optimization (snd (cancel_optimization S job_id)) job_id)"
    by (auto simp: cancel_optimization_def get_job_set_job split: option.splits)
  from t1 o1 t2 o2 t3 o3 show ?thesis by blast
qed

theorem cancel_returns_true_iff_not_terminal_witness:
  "fst (cancel_training (svc (training_run training_init
       [Spawn ''job'' \<lparr>model_type = RAG, epochs = 3, batch_size = 32,
                        learning_rate = 1 / 100000\<rparr>, Resume ''job'' 0])) ''job'')
   \<and> \<not> fst (cancel_training (svc (training_run training_init
       [Spawn ''job'' \<lparr>model_type = RAG, epochs = 3, batch_size = 32,
                        learning_rate = 1 / 100000\<rparr>, Resume ''job'' 0, Cancel ''job''])) ''job'')
   \<and> snd (cancel_training (svc (training_run training_init
       [Spawn ''job'' \<lparr>model_type = RAG, epochs = 3, batch_size = 32,
                        learning_rate = 1 / 100000\<rparr>, Resume ''job'' 0, Cancel ''job''])) ''job'')
      = svc (training_run training_init
       [Spawn ''job'' \<lparr>model_type = RAG, epochs = 3, batch_size = 32,
                        learning_rate = 1 / 100000\<rparr>, Resume ''job'' 0, Cancel ''job''])
   \<and> \<not> fst (cancel_optimization (svc (optimization_run optimization_init
       [Spawn ''job'' \<lparr>target_module = ''m'', optimization_algorithm = RANDOM_SEARCH,
                        max_iterations = 2\<rparr>, Resume ''job'' 0, Cancel ''job''])) ''job'')
   \<and> snd (cancel_optimization (svc (optimization_run optimization_init
       [Spawn ''job'' \<lparr>target_module = ''m'', optimization_algorithm = RANDOM_SEARCH,
                        max_iterations = 2\<rparr>, Resume ''job'' 0, Cancel ''job''])) ''job'')
      = svc (optimization_run optimization_init
       [Spawn ''job'' \<lparr>target_module = ''m'', optimization_algorithm = RANDOM_SEARCH,
                        max_iterations = 2\<rparr>, Resume ''job'' 0, Cancel ''job''])"
proof -
  let ?r = "\<lparr>model_type = RAG, epochs = 3, batch_size = 32, learning_rate = 1 / 100000\<rparr>"
  let ?q = "\<lparr>target_module = ''m'', optimization_algorithm = RANDOM_SEARCH, max_iterations = 2\<rparr>"
  have a: "fst (cancel_training (svc (training_run training_init
       [Spawn ''job'' ?r, Resume ''job'' 0])) ''job'')"
    using cancel_returns_true_iff_not_terminal
      [of "[Spawn ''job'' ?r, Resume ''job'' 0]" "''job''" "[]"]
    by (simp add: run_simps)
  have b: "\<not> fst (cancel_training (svc (training_run training_init
       [Spawn ''job'' ?r, Resume ''job'' 0, Cancel ''job''])) ''job'')"
    by (simp add: run_simps)
  from b cancel_returns_true_iff_not_terminal
      [of "[Spawn ''job'' ?r, Resume ''job'' 0, Cancel ''job'']" "''job''"
        "[Spawn ''job'' ?q, Resume ''job'' 0, Cancel ''job'']"]
  have c: "snd (cancel_training (svc (training_run training_init
       [Spawn ''job'' ?r, Resume ''job'' 0, Cancel ''job''])) ''job'')
      = svc (training_run training_init [Spawn ''job'' ?r, Resume ''job'' 0, Cancel ''job''])"
    by blast
  have d: "\<not> fst (cancel_optimization (svc (optimization_run optimization_init
       [Spawn ''job'' ?q, Resume ''job'' 0, Cancel ''job''])) ''job'')"
    by (simp add: run_simps)
  from d cancel_returns_true_iff_not_terminal
      [of "[Spawn ''job'' ?r, Resume ''job'' 0, Cancel ''job'']" "''job''"
        "[Spawn ''job'' ?q, Resume ''job'' 0, Cancel ''job'']"]
  have e: "snd (cancel_optimization (svc (optimization_run optimization_init
       [Spawn ''job'' ?q, Resume ''job'' 0, Cancel ''job''])) ''job'')
      = svc (optimization_run optimization_init
          [Spawn ''job'' ?q, Resume ''job'' 0, Cancel ''job''])"
    by blast
  from a b c d e show ?thesis by blast
qed

section \<open>The end timestamp\<close>

text \<open>
  C4, as the specification states it, fails: a terminal job need not have an end
  timestamp. A training job cancelled during its first epoch ends with status
  cancelled, and an optimization job whose step raises ends with status failed; neither
  has a \<^verbatim>\<open>completion_time\<close>.
\<close>

theorem terminal_job_without_completion_time:
  "map_option (\<lambda>j. (status j, completion_time j))
     (get_job (svc (training_run training_init
        [Spawn ''job'' \<lparr>model_type = RAG, epochs = 3, batch_size = 32,
                         learning_rate = 1 / 100000\<rparr>,
         Resume ''job'' 0, Cancel ''job'', Resume ''job'' 1])) ''job'')
     = Some (Cancelled, None)
   \<and> map_option (\<lambda>j. (status j, completion_time j))
     (get_job (svc (optimization_run optimization_init
        [Spawn ''job'' \<lparr>target_module = ''m'', optimization_algorithm = RANDOM_SEARCH,
                         max_iterations = 3\<rparr>,
         Resume ''job'' 0, Throw ''job'' ''boom''])) ''job'')
     = Some (Failed, None)"
  by (simp add: run_simps)

text \<open>
  C4, amended. In every reachable state of either service, the \<^verbatim>\<open>completion_time\<close> of a
  job is set if and only if its status is completed; failed and cancelled jobs have
  none. It is set once: from a state in which it is set, no sequence of events changes
  the job dictionary.
\<close>

theorem completion_time_iff_completed:
  assumes "get_job (svc (training_run training_init evs)) job_id = Some j"
    and "get_job (svc (optimization_run optimization_init oevs)) job_id = Some oj"
  shows "(completion_time j \<noteq> None) = (status j = Completed)
     \<and> (completion_time j \<noteq> None \<longrightarrow>
          get_job (svc (training_run (training_run training_init evs) evs')) job_id = Some j)
     \<and> (completion_time oj \<noteq> None) = (status oj = Completed)
     \<and> (completion_time oj \<noteq> None \<longrightarrow>
          get_job (svc (optimization_run (optimization_run optimization_init oevs) oevs')) job_id
            = Some oj)"
proof -
  let ?s = "training_run training_init evs"
  let ?o = "optimization_run optimization_init oevs"
  note tf = training_job_facts [OF training_reachable assms(1)]
  note of' = optimization_job_facts [OF optimization_reachable assms(2)]
  have t2: "get_job (svc (training_run ?s evs')) job_id = Some j" if c: "completion_time j \<noteq> None"
  proof -
    from c tf(2) have st: "status j = Completed" by simp
    with tf(3) obtain t where t: "tasks ?s job_id = Some t" "task_pc t = Returned True"
      by blast
    from training_returned_stays_run [OF t assms(1)] st show ?thesis by simp
  qed
  have o2: "get_job (svc (optimization_run ?o oevs')) job_id = Some oj"
    if c: "completion_time oj \<noteq> None"
  proof -
    from c of'(2) have st: "status oj = Completed" by simp
    with of'(3) obtain t where t: "tasks ?o job_id = Some t" "task_pc t = Returned True"
      by blast
    from optimization_returned_stays_run [OF t assms(2)] st show ?thesis by simp
  qed
  from tf(2) of'(2) t2 o2 show ?thesis by blast
qed

theorem completion_time_iff_completed_witness:
  "map_option (\<lambda>j. (status j, completion_time j))
     (get_job (svc (training_run training_init
        [Spawn ''job'' \<lparr>model_type = RAG, epochs = 1, batch_size = 32,
                         learning_rate = 1 / 100000\<rparr>,
         Resume ''job'' 0, Resume ''job'' 5])) ''job'')
     = Some (Completed, Some 5)
   \<and> get_job (svc (training_run (training_run training_init
        [Spawn ''job'' \<lparr>model_type = RAG, epochs = 1, batch_size = 32,
                         learning_rate = 1 / 100000\<rparr>,
         Resume ''job'' 0, Resume ''job'' 5]) [Cancel ''job'', Resume ''job'' 9])) ''job''
     = get_job (svc (training_run training_init
        [Spawn ''job'' \<lparr>model_type = RAG, epochs = 1, batch_size = 32,
                         learning_rate = 1 / 100000\<rparr>,
         Resume ''job'' 0, Resume ''job'' 5])) ''job''
   \<and> map_option (\<lambda>j. (status j, completion_time j))
     (get_job (svc (optimization_run optimization_init
        [Spawn ''job'' \<lparr>target_module = ''m'', optimization_algorithm = RANDOM_SEARCH,
                         max_iterations = 1\<rparr>,
         Resume ''job'' 0, Resume ''job'' 7])) ''job'')
     = Some (Completed, Some 7)
   \<and> get_job (svc (optimization_run (optimization_run optimization_init
        [Spawn ''job'' \<lparr>target_module = ''m'', optimization_algorithm = RANDOM_SEARCH,
                         max_iterations = 1\<rparr>,
         Resume ''job'' 0, Resume ''job'' 7]) [Cancel ''job'', Resume ''job'' 9])) ''job''
     = get_job (svc (optimization_run optimization_init
        [Spawn ''job'' \<lparr>target_module = ''m'', optimization_algorithm = RANDOM_SEARCH,
                         max_iterations = 1\<rparr>,
         Resume ''job'' 0, Resume ''job'' 7])) ''job''"
proof -
  let ?r = "\<lparr>model_type = RAG, epochs = 1, batch_size = 32, learning_rate = 1 / 100000\<rparr>"
  let ?q = "\<lparr>target_module = ''m'', optimization_algorithm = RANDOM_SEARCH, max_iterations = 1\<rparr>"
  let ?evs = "[Spawn ''job'' ?r, Resume ''job'' 0, Resume ''job'' 5]"
  let ?oevs = "[Spawn ''job'' ?q, Resume ''job'' 0, Resume ''job'' 7]"
  obtain j where j: "get_job (svc (training_run training_init ?evs)) ''job'' = Some j"
    and js: "status j = Completed" "completion_time j = Some 5"
    by (simp add: run_simps)
  obtain oj where oj: "get_job (svc (optimization_run optimization_init ?oevs)) ''job'' = Some oj"
    and ojs: "status oj = Completed" "completion_time oj = Some 7"
    by (simp add: run_simps)
  from completion_time_iff_completed
    [OF j oj, of "[Cancel ''job'', Resume ''job'' 9]" "[Cancel ''job'', Resume ''job'' 9]"]
    j oj js ojs
  show ?thesis by simp
qed

section \<open>History and results of an optimization job\<close>



text \<open>
  C8, as the specification states it, fails in the improvement: the result of a
  completed job with best score 9/10 and baseline 1/2 reports 80, which is not
  (best - baseline) / baseline = 4/5.
\<close>

theorem result_improvement_is_a_percentage:
  "get_optimization_results (svc (optimization_run optimization_init
      [Spawn ''job'' \<lparr>target_module = ''m'', optimization_algorithm = RANDOM_SEARCH,
                       max_iterations = 1\<rparr>,
       Resume ''job'' 0, Resume ''job'' 7])) ''job''
    = Inr (Some \<lparr>res_optimization_id = ''job'', res_final_score = 9 / 10,
                 res_baseline_score = 1 / 2, res_improvement_percentage = 80,
                 res_optimization_time = 7 / 1000000, res_iterations_completed = 1,
                 res_optimization_history =
                   [\<lparr>h_iteration = 1, h_score = 9 / 10, h_best_score = 9 / 10,
                     h_improvement = 2 / 5\<rparr>]\<rparr>)
   \<and> ((9 / 10 - 1 / 2) / (1 / 2) :: rat) \<noteq> 80"
  by (simp add: run_simps get_optimization_results_def total_seconds_def)

text \<open>
  C8, amended. \<^verbatim>\<open>get_optimization_results\<close> returns \<open>None\<close> whenever the job is unknown or
  its status is not completed. For a completed job of a reachable state it returns a
  result whose final score is the best score, whose improvement percentage is
  ((best - baseline) / baseline) * 100, whose optimization time is the seconds from
  \<^verbatim>\<open>start_time\<close> to \<^verbatim>\<open>completion_time\<close>, whose completed iterations are the length of the
  history, which is the current step and is \<^verbatim>\<open>max_iterations\<close> when that is not negative,
  and which carries the whole history.
\<close>

theorem results_only_when_completed:
  "((\<forall>j. get_job self job_id = Some j \<longrightarrow> status j \<noteq> Completed)
      \<longrightarrow> get_optimization_results self job_id = Inr None)
   \<and> (\<forall>j. get_job (svc (optimization_run optimization_init evs)) job_id = Some j
          \<and> status j = Completed \<longrightarrow>
        (\<exists>ended_at.
           completion_time j = Some ended_at
           \<and> get_optimization_results (svc (optimization_run optimization_init evs)) job_id
             = Inr (Some
                 \<lparr>res_optimization_id = job_id, res_final_score = best_score j,
                  res_baseline_score = baseline_score j,
                  res_improvement_percentage
                    = ((best_score j - baseline_score j) / baseline_score j) * 100,
                  res_optimization_time = total_seconds (ended_at - start_time j),
                  res_iterations_completed = int (length (history j)),
                  res_optimization_history = history j\<rparr>))
        \<and> map_option op_iteration
            (get_optimization_progress (svc (optimization_run optimization_init evs)) job_id)
           = Some (int (length (history j)))
        \<and> int (length (history j)) = max 0 (max_iterations (request j)))"
proof -
  have a: "(\<forall>j. get_job self job_id = Some j \<longrightarrow> status j \<noteq> Completed)
      \<longrightarrow> get_optimization_results self job_id = Inr None"
    by (auto simp: get_optimization_results_def split: option.splits)
  have b: "(\<exists>ended_at.
           completion_time j = Some ended_at
           \<and> get_optimization_results (svc (optimization_run optimization_init evs)) job_id
             = Inr (Some
                 \<lparr>res_optimization_id = job_id, res_final_score = best_score j,
                  res_baseline_score = baseline_score j,
                  res_improvement_percentage
                    = ((best_score j - baseline_score j) / baseline_score j) * 100,
                  res_optimization_time = total_seconds (ended_at - start_time j),
                  res_iterations_completed = int (length (history j)),
                  res_optimization_history = history j\<rparr>))
        \<and> map_option op_iteration
            (get_optimization_progress (svc (optimization_run optimization_init evs)) job_id)
           = Some (int (length (history j)))
        \<and> int (length (history j)) = max 0 (max_iterations (request j))"
    if j: "get_job (svc (optimization_run optimization_init evs)) job_id = Some j"
      and c: "status j = Completed" for j
  proof -
    note f = optimization_job_facts [OF optimization_reachable j]
    from f(2) c obtain ct where ct: "completion_time j = Some ct" by auto
    have p: "map_option op_iteration
            (get_optimization_progress (svc (optimization_run optimization_init evs)) job_id)
           = Some (int (length (history j)))"
      using j by (simp add: get_optimization_progress_def Let_def)
    from j c ct f(5) f(6) [OF c] p show ?thesis
      by (simp add: get_optimization_results_def)
  qed
  from a b show ?thesis by blast
qed

theorem results_only_when_completed_witness:
  "get_optimization_results (svc (optimization_run optimization_init
      [Spawn ''job'' \<lparr>target_module = ''m'', optimization_algorithm = RANDOM_SEARCH,
                       max_iterations = 2\<rparr>, Resume ''job'' 0, Resume ''job'' 1])) ''job''
     = Inr None
   \<and> get_optimization_results (svc (optimization_run optimization_init
      [Spawn ''job'' \<lparr>target_module = ''m'', optimization_algorithm = RANDOM_SEARCH,
                       max_iterations = 1\<rparr>, Resume ''job'' 0, Resume ''job'' 7])) ''job''
     = Inr (Some \<lparr>res_optimization_id = ''job'', res_final_score = 9 / 10,
                 res_baseline_score = 1 / 2, res_improvement_percentage = 80,
                 res_optimization_time = 7 / 1000000, res_iterations_completed = 1,
                 res_optimization_history =
                   [\<lparr>h_iteration = 1, h_score = 9 / 10, h_best_score = 9 / 10,
                     h_improvement = 2 / 5\<rparr>]\<rparr>)"
proof -
  let ?q = "\<lparr>target_module = ''m'', optimization_algorithm = RANDOM_SEARCH, max_iterations = 2\<rparr>"
  let ?q1 = "\<lparr>target_module = ''m'', optimization_algorithm = RANDOM_SEARCH, max_iterations = 1\<rparr>"
  let ?S = "svc (optimization_run optimization_init
      [Spawn ''job'' ?q, Resume ''job'' 0, Resume ''job'' 1])"
  let ?evs = "[Spawn ''job'' ?q1, Resume ''job'' 0, Resume ''job'' 7]"
  have r: "\<forall>j. get_job ?S ''job'' = Some j \<longrightarrow> status j \<noteq> Completed"
    by (simp add: run_simps)
  let ?J = "\<lparr>status = Completed, start_time = 0, request = ?q1, progress = 1,
             completion_time = Some 7, error = None, best_score = 9 / 10,
             baseline_score = 1 / 2,
             history = [\<lparr>h_iteration = 1, h_score = 9 / 10, h_best_score = 9 / 10,
                         h_improvement = 2 / 5\<rparr>]\<rparr>"
  have j: "get_job (svc (optimization_run optimization_init ?evs)) ''job'' = Some ?J"
    by (simp add: run_simps)
  have c: "status ?J = Completed" by simp
  from results_only_when_completed [of ?S "''job''" ?evs] r j c
  have "get_optimization_results ?S ''job'' = Inr None"
    and "\<exists>ended_at.
           completion_time ?J = Some ended_at
           \<and> get_optimization_results (svc (optimization_run optimization_init ?evs)) ''job''
             = Inr (Some
                 \<lparr>res_optimization_id = ''job'', res_final_score = best_score ?J,
                  res_baseline_score = baseline_score ?J,
                  res_improvement_percentage
                    = ((best_score ?J - baseline_score ?J) / baseline_score ?J) * 100,
                  res_optimization_time = total_seconds (ended_at - start_time ?J),
                  res_iterations_completed = int (length (history ?J)),
                  res_optimization_history = history ?J\<rparr>)"
    by blast+
  then show ?thesis by (simp add: total_seconds_def)
qed

section \<open>The coroutine and cancellation\<close>

text \<open>
  C3. A terminal status is left again. A job of one epoch is started and cancelled
  while its only epoch sleeps: \<^verbatim>\<open>cancel_training\<close> returns true and the status is
  cancelled. The coroutine then finishes the epoch, leaves the loop, where nothing
  checks for cancellation, and marks the job completed, with a \<^verbatim>\<open>completion_time\<close>. The
  optimization service does the same, and a step that raises after the cancellation
  turns cancelled into failed.
\<close>

theorem cancelled_job_is_marked_completed:
  "map_option status (get_job (svc (training_run training_init
      [Spawn ''job'' \<lparr>model_type = RAG, epochs = 1, batch_size = 32,
                       learning_rate = 1 / 100000\<rparr>,
       Resume ''job'' 0, Cancel ''job''])) ''job'') = Some Cancelled
   \<and> map_option (\<lambda>j. (status j, completion_time j)) (get_job (svc (training_run training_init
      [Spawn ''job'' \<lparr>model_type = RAG, epochs = 1, batch_size = 32,
                       learning_rate = 1 / 100000\<rparr>,
       Resume ''job'' 0, Cancel ''job'', Resume ''job'' 5])) ''job'') = Some (Completed, Some 5)
   \<and> map_option status (get_job (svc (optimization_run optimization_init
      [Spawn ''job'' \<lparr>target_module = ''m'', optimization_algorithm = RANDOM_SEARCH,
                       max_iterations = 1\<rparr>,
       Resume ''job'' 0, Cancel ''job''])) ''job'') = Some Cancelled
   \<and> map_option (\<lambda>j. (status j, completion_time j))
       (get_job (svc (optimization_run optimization_init
      [Spawn ''job'' \<lparr>target_module = ''m'', optimization_algorithm = RANDOM_SEARCH,
                       max_iterations = 1\<rparr>,
       Resume ''job'' 0, Cancel ''job'', Resume ''job'' 5])) ''job'') = Some (Completed, Some 5)
   \<and> map_option status (get_job (svc (training_run training_init
      [Spawn ''job'' \<lparr>model_type = RAG, epochs = 1, batch_size = 32,
                       learning_rate = 1 / 100000\<rparr>,
       Resume ''job'' 0, Cancel ''job'', Throw ''job'' ''boom''])) ''job'') = Some Failed"
  by (simp add: run_simps)

text \<open>
  C5, as the specification states it, fails in the end timestamp. A job of three epochs
  is cancelled while its second epoch sleeps, that is before step 3 begins. The check
  before step 3 ends the coroutine: the status is cancelled and \<^verbatim>\<open>current_epoch\<close> is 2,
  but no \<^verbatim>\<open>completion_time\<close> is set.
\<close>

theorem cancelled_before_step_has_no_end_time:
  "map_option (\<lambda>j. (status j, current_epoch j, completion_time j))
     (get_job (svc (training_run training_init
        [Spawn ''job'' \<lparr>model_type = RAG, epochs = 3, batch_size = 32,
                         learning_rate = 1 / 100000\<rparr>,
         Resume ''job'' 0, Resume ''job'' 1, Cancel ''job'', Resume ''job'' 2])) ''job'')
     = Some (Cancelled, Some 2, None)
   \<and> map_option task_pc (tasks (training_run training_init
        [Spawn ''job'' \<lparr>model_type = RAG, epochs = 3, batch_size = 32,
                         learning_rate = 1 / 100000\<rparr>,
         Resume ''job'' 0, Resume ''job'' 1, Cancel ''job'', Resume ''job'' 2]) ''job'')
     = Some (Returned False)"
  by (simp add: run_simps)

text \<open>
  C5, amended. Take a reachable state in which the coroutine of a job sleeps in the
  step with loop variable \<open>ep\<close> (step \<open>ep + 1\<close>, counted from 1), a further step \<open>k = ep + 2\<close>
  is left, and the status is cancelled already. When the coroutine is resumed it
  finishes step \<open>k - 1\<close> and returns false at the check before step \<open>k\<close>: the status is
  cancelled, the current step is \<open>k - 1 = ep + 1\<close> (\<^verbatim>\<open>current_epoch\<close> of a training job, the
  length of the history of an optimization job), no \<^verbatim>\<open>completion_time\<close> is set, and no
  later sequence of events changes the job, so neither step \<open>k\<close> nor a later step runs.
\<close>

theorem cancelled_at_the_check_stops_the_coroutine:
  assumes "tasks (training_run training_init evs) job_id = Some t"
    and "task_pc t = Sleeping ep"
    and "get_job (svc (training_run training_init evs)) job_id = Some j"
    and "status j = Cancelled"
    and "ep + 1 < epochs (task_request t)"
    and "tasks (optimization_run optimization_init oevs) job_id = Some ot"
    and "task_pc ot = Sleeping it"
    and "get_job (svc (optimization_run optimization_init oevs)) job_id = Some oj"
    and "status oj = Cancelled"
    and "it + 1 < max_iterations (task_request ot)"
  shows "(\<exists>j'. status j' = Cancelled \<and> current_epoch j' = Some (ep + 1)
            \<and> completion_time j' = None
            \<and> map_option task_pc
                (tasks (training_step (Resume job_id now) (training_run training_init evs))
                   job_id) = Some (Returned False)
            \<and> (\<forall>evs'. get_job (svc (training_run
                   (training_step (Resume job_id now) (training_run training_init evs)) evs'))
                   job_id = Some j'))
       \<and> (\<exists>j'. status j' = Cancelled \<and> int (length (history j')) = it + 1
            \<and> completion_time j' = None
            \<and> map_option task_pc
                (tasks (optimization_step (Resume job_id now)
                   (optimization_run optimization_init oevs)) job_id) = Some (Returned False)
            \<and> (\<forall>evs'. get_job (svc (optimization_run
                   (optimization_step (Resume job_id now)
                      (optimization_run optimization_init oevs)) evs'))
                   job_id = Some j'))"
proof -
  let ?s = "training_run training_init evs"
  let ?s' = "training_step (Resume job_id now) ?s"
  let ?o = "optimization_run optimization_init oevs"
  let ?o' = "optimization_step (Resume job_id now) ?o"
  from training_reachable [of evs job_id] assms(1-3)
  have ti: "0 \<le> ep" "ep < epochs (task_request t)" "completion_time j = None"
    by (auto simp: training_inv_def training_job_ok_def)
  let ?j' = "j\<lparr>progress := of_int (ep + 1) / of_int (epochs (task_request t)),
               current_epoch := Some (ep + 1),
               metrics := Some \<lparr>loss = 1 - of_int (ep + 1) / of_int (epochs (task_request t)) * (8 / 10),
                                 accuracy = of_int (ep + 1) / of_int (epochs (task_request t)) * (9 / 10),
                                 epoch = ep + 1\<rparr>\<rparr>"
  have t1: "get_job (svc ?s') job_id = Some ?j'"
    and t2: "tasks ?s' job_id = Some (t\<lparr>task_pc := Returned False\<rparr>)"
    using assms(1-5) ti
    by (auto simp: run_task_def train_defs get_job_set_job Let_def)
  have t3: "get_job (svc (training_run ?s' evs')) job_id = Some ?j'" for evs'
    using training_returned_stays_run [OF t2 _ t1, of False evs'] assms(4) by simp
  from optimization_reachable [of oevs job_id] assms(6-8)
  have oi: "0 \<le> it" "it < max_iterations (task_request ot)" "completion_time oj = None"
    "int (length (history oj)) = it"
    by (auto simp: optimization_inv_def optimization_job_ok_def)
  let ?p = "of_int (it + 1) / of_int (max_iterations (task_request ot)) :: rat"
  let ?c = "1 / 2 + ?p * (4 / 10) + of_int it * (1 / 1000)"
  let ?oj' = "oj\<lparr>progress := ?p, best_score := max ?c (best_score oj),
                 history := history oj @
                   [\<lparr>h_iteration = it + 1, h_score = ?c, h_best_score = max ?c (best_score oj),
                     h_improvement = max ?c (best_score oj) - baseline_score oj\<rparr>]\<rparr>"
  have o1: "get_job (svc ?o') job_id = Some ?oj'"
    and o2: "tasks ?o' job_id = Some (ot\<lparr>task_pc := Returned False\<rparr>)"
    using assms(6-10) oi
    by (auto simp: run_task_def optimize_defs get_job_set_job Let_def)
  have o3: "get_job (svc (optimization_run ?o' evs')) job_id = Some ?oj'" for evs'
    using optimization_returned_stays_run [OF o2 _ o1, of False evs'] assms(9) by simp
  have A: "\<exists>j'. status j' = Cancelled \<and> current_epoch j' = Some (ep + 1)
            \<and> completion_time j' = None
            \<and> map_option task_pc (tasks ?s' job_id) = Some (Returned False)
            \<and> (\<forall>evs'. get_job (svc (training_run ?s' evs')) job_id = Some j')"
    using t2 t3 assms(4) ti(3) by (intro exI [of _ ?j']) simp
  have B: "\<exists>j'. status j' = Cancelled \<and> int (length (history j')) = it + 1
            \<and> completion_time j' = None
            \<and> map_option task_pc (tasks ?o' job_id) = Some (Returned False)
            \<and> (\<forall>evs'. get_job (svc (optimization_run ?o' evs')) job_id = Some j')"
    using o2 o3 assms(9) oi(3,4) by (intro exI [of _ ?oj']) simp
  from A B show ?thesis by blast
qed

theorem cancelled_at_the_check_stops_the_coroutine_witness:
  "map_option (\<lambda>j. (status j, current_epoch j, completion_time j))
     (get_job (svc (training_step (Resume ''job'' 2) (training_run training_init
        [Spawn ''job'' \<lparr>model_type = RAG, epochs = 3, batch_size = 32,
                         learning_rate = 1 / 100000\<rparr>,
         Resume ''job'' 0, Resume ''job'' 1, Cancel ''job'']))) ''job'')
     = Some (Cancelled, Some 2, None)
   \<and> get_job (svc (training_run (training_step (Resume ''job'' 2) (training_run training_init
        [Spawn ''job'' \<lparr>model_type = RAG, epochs = 3, batch_size = 32,
                         learning_rate = 1 / 100000\<rparr>,
         Resume ''job'' 0, Resume ''job'' 1, Cancel ''job'']))
        [Resume ''job'' 3, Cancel ''job''])) ''job''
     = get_job (svc (training_step (Resume ''job'' 2) (training_run training_init
        [Spawn ''job'' \<lparr>model_type = RAG, epochs = 3, batch_size = 32,
                         learning_rate = 1 / 100000\<rparr>,
         Resume ''job'' 0, Resume ''job'' 1, Cancel ''job'']))) ''job''
   \<and> map_option (\<lambda>j. (status j, length (history j), completion_time j))
     (get_job (svc (optimization_step (Resume ''job'' 2) (optimization_run optimization_init
        [Spawn ''job'' \<lparr>target_module = ''m'', optimization_algorithm = RANDOM_SEARCH,
                         max_iterations = 3\<rparr>,
         Resume ''job'' 0, Resume ''job'' 1, Cancel ''job'']))) ''job'')
     = Some (Cancelled, 2, None)
   \<and> get_job (svc (optimization_run (optimization_step (Resume ''job'' 2)
        (optimization_run optimization_init
        [Spawn ''job'' \<lparr>target_module = ''m'', optimization_algorithm = RANDOM_SEARCH,
                         max_iterations = 3\<rparr>,
         Resume ''job'' 0, Resume ''job'' 1, Cancel ''job'']))
        [Resume ''job'' 3, Cancel ''job''])) ''job''
     = get_job (svc (optimization_step (Resume ''job'' 2) (optimization_run optimization_init
        [Spawn ''job'' \<lparr>target_module = ''m'', optimization_algorithm = RANDOM_SEARCH,
                         max_iterations = 3\<rparr>,
         Resume ''job'' 0, Resume ''job'' 1, Cancel ''job'']))) ''job''"
proof -
  let ?r = "\<lparr>model_type = RAG, epochs = 3, batch_size = 32, learning_rate = 1 / 100000\<rparr>"
  let ?q = "\<lparr>target_module = ''m'', optimization_algorithm = RANDOM_SEARCH, max_iterations = 3\<rparr>"
  let ?evs = "[Spawn ''job'' ?r, Resume ''job'' 0, Resume ''job'' 1, Cancel ''job'']"
  let ?oevs = "[Spawn ''job'' ?q, Resume ''job'' 0, Resume ''job'' 1, Cancel ''job'']"
  let ?s' = "training_step (Resume ''job'' 2) (training_run training_init ?evs)"
  let ?o' = "optimization_step (Resume ''job'' 2) (optimization_run optimization_init ?oevs)"
  have t: "tasks (training_run training_init ?evs) ''job''
      = Some \<lparr>task_request = ?r, task_pc = Sleeping 1\<rparr>"
    by (simp add: run_simps)
  obtain j where j: "get_job (svc (training_run training_init ?evs)) ''job'' = Some j"
    and js: "status j = Cancelled"
    by (simp add: run_simps)
  have ot: "tasks (optimization_run optimization_init ?oevs) ''job''
      = Some \<lparr>task_request = ?q, task_pc = Sleeping 1\<rparr>"
    by (simp add: run_simps)
  obtain oj where oj: "get_job (svc (optimization_run optimization_init ?oevs)) ''job'' = Some oj"
    and ojs: "status oj = Cancelled"
    by (simp add: run_simps)
  from cancelled_at_the_check_stops_the_coroutine
    [OF t _ j js _ ot _ oj ojs, of 1 1 2]
  obtain j' oj' where
    a: "status j' = Cancelled" "current_epoch j' = Some 2" "completion_time j' = None"
      "\<forall>evs'. get_job (svc (training_run ?s' evs')) ''job'' = Some j'"
    and b: "status oj' = Cancelled" "int (length (history oj')) = 2"
      "completion_time oj' = None"
      "\<forall>evs'. get_job (svc (optimization_run ?o' evs')) ''job'' = Some oj'"
    by auto
  have e: "training_run ?s' [] = ?s'" "optimization_run ?o' [] = ?o'"
    by (simp_all only: training_run_def optimization_run_def foldl.simps)
  from a(4) have a1:
    "get_job (svc (training_run ?s' [Resume ''job'' 3, Cancel ''job''])) ''job'' = Some j'"
    by blast
  from a(4) have "get_job (svc (training_run ?s' [])) ''job'' = Some j'" by blast
  with e(1) have a0: "get_job (svc ?s') ''job'' = Some j'" by (simp only:)
  from b(4) have b1:
    "get_job (svc (optimization_run ?o' [Resume ''job'' 3, Cancel ''job''])) ''job'' = Some oj'"
    by blast
  from b(4) have "get_job (svc (optimization_run ?o' [])) ''job'' = Some oj'" by blast
  with e(2) have b0: "get_job (svc ?o') ''job'' = Some oj'" by (simp only:)
  from a(1-3) b(1-3) a0 a1 b0 b1 show ?thesis by (simp del: training_step.simps optimization_step.simps)
qed

section \<open>Submission\<close>









end
